theory Spec2Isabelle
  imports Complex_Main "HOL-Library.Sublist"
begin

section \<open>Python values\<close>

text \<open>
  The liming engine is Python. Its \<open>float\<close>s are modelled as exact reals (no rounding,
  no overflow, no NaN), with one exception: the lower edge of the band of the mode
  \<open>Automatic\<close>, \<open>reference - 0.1\<close>, is the rounded binary64 difference (see
  \<open>float_sub\<close> below), because the branch taken at an ordinary pH depends on it.
  Python's \<open>None\<close> is the \<open>None\<close> of an \<open>option\<close>, a raised exception the \<open>Inl\<close> of a
  sum, and the records written to the module logger are the list of their levels, in the
  order they are written.
\<close>

datatype py_error = ZeroDivisionError | TypeError

datatype log_level = INFO | WARNING

type_synonym 'a logged = "log_level list \<times> (py_error + 'a)"

text \<open>Python's \<open>a / b\<close> on floats raises \<open>ZeroDivisionError\<close> when \<open>b\<close> is zero.\<close>

definition py_div :: "real \<Rightarrow> real \<Rightarrow> py_error + real" where
  "py_div a b = (if b = 0 then Inl ZeroDivisionError else Inr (a / b))"

subsection \<open>Binary64 rounding\<close>

text \<open>
  \<open>to_double r\<close> is the double nearest to the real \<open>r\<close>: the multiple of
  \<open>2 ^ (e - 52)\<close> nearest to \<open>r\<close>, ties to the even multiple, where \<open>e\<close> is the binade
  of \<open>r\<close> (\<open>2 ^ e \<le> \<bar>r\<bar> < 2 ^ (e + 1)\<close>). The exponent range is not bounded (no
  overflow, no subnormal numbers). \<open>float_sub a b\<close> is Python's \<open>a - b\<close> on the doubles
  that the decimals \<open>a\<close> and \<open>b\<close> denote: \<open>5.9 - 0.1\<close> is \<open>5.800000000000001\<close>, above
  the double of \<open>5.8\<close>.
\<close>

definition pow2 :: "int \<Rightarrow> real" where
  "pow2 e = (if 0 \<le> e then 2 ^ nat e else 1 / 2 ^ nat (- e))"

definition binade :: "real \<Rightarrow> int" where
  "binade r = \<lfloor>log 2 \<bar>r\<bar>\<rfloor>"

definition round_half_even :: "real \<Rightarrow> int" where
  "round_half_even q =
     (let f = \<lfloor>q\<rfloor>; d = q - of_int f in
      if d < 1 / 2 then f else if 1 / 2 < d then f + 1 else if even f then f else f + 1)"

definition to_double :: "real \<Rightarrow> real" where
  "to_double r =
     (if r = 0 then 0
      else (let ulp = pow2 (binade r - 52) in of_int (round_half_even (r / ulp)) * ulp))"

definition float_sub :: "real \<Rightarrow> real \<Rightarrow> real" where
  "float_sub a b = to_double (to_double a - to_double b)"

subsection \<open>Strings\<close>

text \<open>
  \<open>str.upper\<close> and \<open>str.lower\<close> on the ASCII letters; every other character is left
  as it is. \<open>str_contains sub s\<close> is Python's \<open>sub in s\<close> on strings.
\<close>

definition ascii_lowercase :: string where
  "ascii_lowercase = ''abcdefghijklmnopqrstuvwxyz''"

definition ascii_uppercase :: string where
  "ascii_uppercase = ''ABCDEFGHIJKLMNOPQRSTUVWXYZ''"

definition upper_char :: "char \<Rightarrow> char" where
  "upper_char c = (case map_of (zip ascii_lowercase ascii_uppercase) c of
                     Some d \<Rightarrow> d | None \<Rightarrow> c)"

definition lower_char :: "char \<Rightarrow> char" where
  "lower_char c = (case map_of (zip ascii_uppercase ascii_lowercase) c of
                     Some d \<Rightarrow> d | None \<Rightarrow> c)"

definition str_upper :: "string \<Rightarrow> string" where
  "str_upper s = map upper_char s"

definition str_lower :: "string \<Rightarrow> string" where
  "str_lower s = map lower_char s"

fun str_contains :: "string \<Rightarrow> string \<Rightarrow> bool" where
  "str_contains sub [] = (sub = [])"
| "str_contains sub (c # cs) = (prefix sub (c # cs) \<or> str_contains sub cs)"

section \<open>VDLUFACalculator\<close>

definition SOIL_TEXTURES :: "string list" where
  "SOIL_TEXTURES =
     [''Sand'', ''Schwach Lehm Sand'', ''Stark Lehmiger Sand'', ''Sandiger Schl Lehm'',
      ''Toniger Lehm b.Ton'']"

definition LIME_CONVERSION_FACTORS :: "(string \<times> real) list" where
  "LIME_CONVERSION_FACTORS =
     [(''CaO'', 1.0), (''CaCO3'', 1.785), (''Ca(OH)2'', 1.321), (''Quicklime'', 1.0),
      (''Slaked_lime'', 1.321), (''Agrocarb'', 2.381), (''Omya_Calciprill'', 1.887)]"

text \<open>
  \<open>TEXTURE_MAPPING\<close>: a key bound to Python's \<open>None\<close> is a pair whose second component
  is \<open>None\<close>, so that \<open>map_of TEXTURE_MAPPING k = Some None\<close> says "the key is there and
  its value is None", and \<open>map_of TEXTURE_MAPPING k = None\<close> says "no such key".
\<close>

definition TEXTURE_MAPPING :: "(string \<times> string option) list" where
  "TEXTURE_MAPPING =
     [(''Bog'', None),
      (''Clay'', Some ''Toniger Lehm b.Ton''),
      (''Clayey loam'', Some ''Toniger Lehm b.Ton''),
      (''half-bog soil'', None),
      (''loamy clay'', Some ''Toniger Lehm b.Ton''),
      (''sand'', Some ''Sand''),
      (''sandy loam'', Some ''Sandiger Schl Lehm''),
      (''silty clay'', Some ''Toniger Lehm b.Ton''),
      (''silty loam'', Some ''Stark Lehmiger Sand''),
      (''slightly clayey loam'', Some ''Toniger Lehm b.Ton''),
      (''slightly loamy sand'', Some ''Schwach Lehm Sand''),
      (''very loamy sand'', Some ''Stark Lehmiger Sand''),
      (''CLAY'', Some ''Toniger Lehm b.Ton''),
      (''SANDY_LOAM'', Some ''Sandiger Schl Lehm''),
      (''SILTY_LOAM'', Some ''Stark Lehmiger Sand''),
      (''SAND'', Some ''Sand''),
      (''Sand'', Some ''Sand''),
      (''Schwach Lehm Sand'', Some ''Schwach Lehm Sand''),
      (''Stark Lehmiger Sand'', Some ''Stark Lehmiger Sand''),
      (''Sandiger Schl Lehm'', Some ''Sandiger Schl Lehm''),
      (''Toniger Lehm b.Ton'', Some ''Toniger Lehm b.Ton'')]"

text \<open>\<open>VDLUFACalculator.map_soil_texture\<close>: exact key, upper-cased key, keywords.\<close>

definition map_soil_texture :: "string option \<Rightarrow> string option" where
  "map_soil_texture api_texture =
     (case api_texture of
        None \<Rightarrow> None
      | Some t \<Rightarrow>
          (case map_of TEXTURE_MAPPING t of
             Some v \<Rightarrow> v
           | None \<Rightarrow>
               (case map_of TEXTURE_MAPPING (str_upper t) of
                  Some v \<Rightarrow> v
                | None \<Rightarrow>
                    (let texture_lower = str_lower t in
                     if str_contains ''sand'' texture_lower then
                       (if str_contains ''loam'' texture_lower then Some ''Schwach Lehm Sand''
                        else Some ''Sand'')
                     else if str_contains ''clay'' texture_lower then Some ''Toniger Lehm b.Ton''
                     else if str_contains ''loam'' texture_lower
                             \<or> str_contains ''lehm'' texture_lower then Some ''Stark Lehm Sand''
                     else if str_contains ''silt'' texture_lower then Some ''Sandiger Schl Lehm''
                     else None))))"

text \<open>\<open>VDLUFACalculator.convert_lime_type\<close>: an unknown lime type is taken as CaO.\<close>

definition convert_lime_type :: "real \<Rightarrow> string \<Rightarrow> real" where
  "convert_lime_type cao_equivalent target_lime_type =
     (case map_of LIME_CONVERSION_FACTORS target_lime_type of
        Some factor \<Rightarrow> cao_equivalent * factor
      | None \<Rightarrow> cao_equivalent)"

text \<open>
  \<open>VDLUFACalculator._reverse_standard_crops\<close> and \<open>_reverse_other_crops\<close>: the
  older inverse, used when no current pH is given. The texture is the mapped one and may
  be \<open>None\<close>, which falls to the last branch as any unknown name does.
\<close>

definition reverse_standard_crops :: "real \<Rightarrow> string option \<Rightarrow> real" where
  "reverse_standard_crops cao_dt_ha soil_texture =
     (if soil_texture = Some ''Sand'' then
        (if cao_dt_ha \<ge> 45.0 then 4.0
         else if cao_dt_ha \<le> 0.0 then 5.9
         else if cao_dt_ha \<le> 3.93 then (69.93 - cao_dt_ha) / 11.852
         else (160.52 - cao_dt_ha) / 28.945)
      else if soil_texture = Some ''Schwach Lehm Sand'' then
        (if cao_dt_ha \<ge> 77.0 then 4.0
         else if cao_dt_ha \<le> 0.0 then 6.4
         else if cao_dt_ha \<le> 11.67 then (106.67 - cao_dt_ha) / 16.667
         else (231.47 - cao_dt_ha) / 38.71)
      else if soil_texture = Some ''Stark Lehmiger Sand'' then
        (if cao_dt_ha \<ge> 87.0 then 4.0
         else if cao_dt_ha \<le> 0.0 then 6.8
         else if cao_dt_ha \<le> 16.0 then (136.0 - cao_dt_ha) / 20.0
         else (302.54 - cao_dt_ha) / 47.912)
      else if soil_texture = Some ''Sandiger Schl Lehm'' then
        (if cao_dt_ha \<ge> 117.0 then 4.0
         else if cao_dt_ha \<le> 0.0 then 7.1
         else if cao_dt_ha \<le> 19.75 then (150.87 - cao_dt_ha) / 21.25
         else (378.54 - cao_dt_ha) / 58.122)
      else if soil_texture = Some ''Toniger Lehm b.Ton'' then
        (if cao_dt_ha \<ge> 160.0 then 4.0
         else if cao_dt_ha \<le> 0.0 then 7.3
         else if cao_dt_ha \<le> 22.22 then (162.22 - cao_dt_ha) / 22.222
         else (505.53 - cao_dt_ha) / 76.93)
      else
        (if cao_dt_ha \<ge> 45.0 then 4.0
         else if cao_dt_ha \<le> 0.0 then 5.9
         else (160.52 - cao_dt_ha) / 28.945))"

definition reverse_other_crops :: "real \<Rightarrow> string option \<Rightarrow> real" where
  "reverse_other_crops cao_dt_ha soil_texture =
     (if soil_texture = Some ''Sand'' then
        (if cao_dt_ha \<ge> 50.0 then 3.4
         else if cao_dt_ha \<le> 0.0 then 5.2
         else if cao_dt_ha \<le> 5.6 then (41.6 - cao_dt_ha) / 8.0
         else (178.46 - cao_dt_ha) / 37.692)
      else if soil_texture = Some ''Schwach Lehm Sand'' then
        (if cao_dt_ha \<ge> 83.0 then 3.3
         else if cao_dt_ha \<le> 0.0 then 5.6
         else if cao_dt_ha \<le> 9.33 then (74.667 - cao_dt_ha) / 13.333
         else (235.91 - cao_dt_ha) / 46.348)
      else if soil_texture = Some ''Stark Lehmiger Sand'' then
        (if cao_dt_ha \<ge> 90.0 then 3.8
         else if cao_dt_ha \<le> 0.0 then 5.9
         else if cao_dt_ha \<le> 10.0 then (84.286 - cao_dt_ha) / 14.286
         else (322.04 - cao_dt_ha) / 60.989)
      else if soil_texture = Some ''Sandiger Schl Lehm'' then
        (if cao_dt_ha \<ge> 109.0 then 3.8
         else if cao_dt_ha \<le> 0.0 then 6.2
         else if cao_dt_ha \<le> 15.0 then (100.75 - cao_dt_ha) / 16.25
         else (349.87 - cao_dt_ha) / 63.309)
      else if soil_texture = Some ''Toniger Lehm b.Ton'' then
        (if cao_dt_ha \<ge> 121.0 then 3.8
         else if cao_dt_ha \<le> 0.0 then 6.4
         else if cao_dt_ha \<le> 17.78 then (113.78 - cao_dt_ha) / 17.778
         else (368.24 - cao_dt_ha) / 65.0)
      else
        5.0)"

text \<open>
  \<open>VDLUFACalculator._get_optimal_ph\<close>:
  \<open>optimal_ph_values.get(crop_type, {}).get(soil_texture, 6.5)\<close>.
\<close>

definition optimal_ph_values :: "(string \<times> (string \<times> real) list) list" where
  "optimal_ph_values =
     [(''Standard crops'',
         [(''Sand'', 5.9), (''Schwach Lehm Sand'', 6.4), (''Stark Lehmiger Sand'', 6.8),
          (''Sandiger Schl Lehm'', 7.1), (''Toniger Lehm b.Ton'', 7.3)]),
      (''Other crops'',
         [(''Sand'', 5.1), (''Schwach Lehm Sand'', 5.5), (''Stark Lehmiger Sand'', 5.8),
          (''Sandiger Schl Lehm'', 6.1), (''Toniger Lehm b.Ton'', 6.3)])]"

definition get_optimal_ph :: "string option \<Rightarrow> string \<Rightarrow> real" where
  "get_optimal_ph soil_texture crop_type =
     (case map_of optimal_ph_values crop_type of
        None \<Rightarrow> 6.5
      | Some by_texture \<Rightarrow>
          (case soil_texture of
             None \<Rightarrow> 6.5
           | Some t \<Rightarrow> (case map_of by_texture t of None \<Rightarrow> 6.5 | Some v \<Rightarrow> v)))"

text \<open>
  \<open>VDLUFACalculator._calculate_standard_crops\<close> and \<open>_calculate_other_crops\<close>: the
  dose curves, in dt/ha of CaO. The branches are tested in the source's order.
\<close>

definition calculate_standard_crops :: "real \<Rightarrow> string option \<Rightarrow> real" where
  "calculate_standard_crops current_ph soil_texture =
     (if soil_texture = Some ''Sand'' then
        (if current_ph < 4 then 45.0
         else if 5.3 < current_ph \<and> current_ph < 5.9 then - 11.852 * current_ph + 69.93
         else if current_ph > 5.8 then 0.0
         else - 28.945 * current_ph + 160.52)
      else if soil_texture = Some ''Schwach Lehm Sand'' then
        (if current_ph < 4 then 77.0
         else if 5.7 < current_ph \<and> current_ph < 6.4 then - 16.667 * current_ph + 106.67
         else if current_ph > 6.3 then 0.0
         else - 38.71 * current_ph + 231.47)
      else if soil_texture = Some ''Stark Lehmiger Sand'' then
        (if current_ph < 4 then 87.0
         else if 6.0 < current_ph \<and> current_ph < 6.8 then - 20.0 * current_ph + 136.0
         else if current_ph > 6.7 then 0.0
         else - 47.912 * current_ph + 302.54)
      else if soil_texture = Some ''Sandiger Schl Lehm'' then
        (if current_ph < 4 then 117.0
         else if 6.2 < current_ph \<and> current_ph < 7.1 then - 21.25 * current_ph + 150.87
         else if current_ph > 7.0 then 0.0
         else - 58.122 * current_ph + 378.54)
      else if soil_texture = Some ''Toniger Lehm b.Ton'' then
        (if current_ph < 4 then 160.0
         else if 6.3 < current_ph \<and> current_ph < 7.3 then - 22.222 * current_ph + 162.22
         else if current_ph > 6.3 then 0.0
         else - 76.93 * current_ph + 505.53)
      else
        (if current_ph < 4 then 45.0
         else if current_ph > 5.8 then 0.0
         else - 28.945 * current_ph + 160.52))"

definition calculate_other_crops :: "real \<Rightarrow> string option \<Rightarrow> real" where
  "calculate_other_crops current_ph soil_texture =
     (if soil_texture = Some ''Sand'' then
        (if current_ph < 3.4 then 50.0
         else if 4.6 < current_ph \<and> current_ph < 5.2 then - 8.0 * current_ph + 41.6
         else if current_ph > 5.1 then 0.0
         else - 37.692 * current_ph + 178.46)
      else if soil_texture = Some ''Schwach Lehm Sand'' then
        (if current_ph < 3.3 then 83.0
         else if 4.9 < current_ph \<and> current_ph < 5.6 then - 13.333 * current_ph + 74.667
         else if current_ph > 5.5 then 0.0
         else - 46.348 * current_ph + 235.91)
      else if soil_texture = Some ''Stark Lehmiger Sand'' then
        (if current_ph < 3.8 then 90.0
         else if 5.1 < current_ph \<and> current_ph < 5.9 then - 14.286 * current_ph + 84.286
         else if current_ph > 5.8 then 0.0
         else - 60.989 * current_ph + 322.04)
      else if soil_texture = Some ''Sandiger Schl Lehm'' then
        (if current_ph < 3.8 then 109.0
         else if 5.3 < current_ph \<and> current_ph < 6.2 then - 16.25 * current_ph + 100.75
         else if current_ph > 6.1 then 0.0
         else - 63.309 * current_ph + 349.87)
      else if soil_texture = Some ''Toniger Lehm b.Ton'' then
        (if current_ph < 3.8 then 121.0
         else if 5.4 < current_ph \<and> current_ph < 6.4 then - 17.778 * current_ph + 113.78
         else if current_ph > 6.3 then 0.0
         else - 65.0 * current_ph + 368.24)
      else
        0.0)"

text \<open>
  \<open>VDLUFACalculator.calculate_lime_requirement\<close>. The division \<open>100 / nv\<close> of the
  maintenance branch is evaluated before the record of the result is logged.
\<close>

definition VDLUFA_calculate_lime_requirement ::
  "real \<Rightarrow> string option \<Rightarrow> string \<Rightarrow> string \<Rightarrow> string \<Rightarrow> real option \<Rightarrow> real
     \<Rightarrow> real logged" where
  "VDLUFA_calculate_lime_requirement current_ph soil_texture crop_type lime_type liming_mode
       caco3_loss_kg_ha nv =
     (let mapped_texture = map_soil_texture soil_texture;
          optimal_ph = get_optimal_ph mapped_texture crop_type;
          cao_dt_ha = (if crop_type = ''Standard crops''
                       then calculate_standard_crops current_ph mapped_texture
                       else calculate_other_crops current_ph mapped_texture);
          cao_kg_ha = cao_dt_ha * 100
      in if liming_mode = ''pH Maintenance'' then
           (if current_ph \<ge> optimal_ph then ([INFO], Inr 0.0)
            else
              (case caco3_loss_kg_ha of
                 Some loss \<Rightarrow>
                   (let cao_loss_kg_ha = loss / 1.785 in
                    case py_div 100 nv of
                      Inl e \<Rightarrow> ([], Inl e)
                    | Inr q \<Rightarrow> ([INFO], Inr (cao_loss_kg_ha * q)))
               | None \<Rightarrow> ([WARNING], Inr 0.0)))
         else if liming_mode = ''Automatic'' then
           (if current_ph \<ge> optimal_ph then ([], Inr 0.0)
            else ([], Inr (convert_lime_type cao_kg_ha lime_type)))
         else ([], Inr (convert_lime_type cao_kg_ha lime_type)))"

text \<open>
  \<open>VDLUFACalculator.reverse_calculate_ph\<close>. With a current pH, the loop of the source
  runs its body once (one call of \<open>calculate_lime_requirement\<close> whose result is not
  used, then \<open>break\<close>), and the proportional estimate follows.
\<close>

definition VDLUFA_reverse_calculate_ph ::
  "real \<Rightarrow> string option \<Rightarrow> string \<Rightarrow> string \<Rightarrow> real option \<Rightarrow> real logged" where
  "VDLUFA_reverse_calculate_ph lime_kg_ha soil_texture crop_type lime_type current_ph_opt =
     (case current_ph_opt of
        None \<Rightarrow>
          (let cao_kg_ha = (case map_of LIME_CONVERSION_FACTORS lime_type of
                              Some conversion_factor \<Rightarrow> py_div lime_kg_ha conversion_factor
                            | None \<Rightarrow> Inr lime_kg_ha)
           in case cao_kg_ha of
                Inl e \<Rightarrow> ([], Inl e)
              | Inr kg \<Rightarrow>
                  (let cao_dt_ha = kg / 100;
                       mapped_texture = map_soil_texture soil_texture
                   in if crop_type = ''Standard crops''
                      then ([], Inr (reverse_standard_crops cao_dt_ha mapped_texture))
                      else ([], Inr (reverse_other_crops cao_dt_ha mapped_texture))))
      | Some current_ph \<Rightarrow>
          (let mapped_texture = map_soil_texture soil_texture;
               optimal_ph = get_optimal_ph mapped_texture crop_type
           in if lime_kg_ha \<le> 0 then ([], Inr current_ph)
              else
                (let lime_for_mid = VDLUFA_calculate_lime_requirement current_ph soil_texture
                                      crop_type lime_type ''pH Improvement'' None 100.0
                 in case snd lime_for_mid of
                      Inl e \<Rightarrow> (fst lime_for_mid, Inl e)
                    | Inr _ \<Rightarrow>
                        (let lime_to_optimal = VDLUFA_calculate_lime_requirement current_ph
                                                 soil_texture crop_type lime_type
                                                 ''pH Improvement'' None 100.0;
                             logs = fst lime_for_mid @ fst lime_to_optimal
                         in case snd lime_to_optimal of
                              Inl e \<Rightarrow> (logs, Inl e)
                            | Inr to_optimal \<Rightarrow>
                                if to_optimal \<le> 0 then (logs, Inr current_ph)
                                else
                                  (let ph_increase_fraction = min 1.0 (lime_kg_ha / to_optimal)
                                   in (logs, Inr (current_ph
                                         + ph_increase_fraction * (optimal_ph - current_ph))))))))"

section \<open>CECCalculator\<close>





text \<open>\<open>CECCalculator._calculate_standard\<close>: the forward formula, never below zero.\<close>

definition calculate_standard ::
  "real \<Rightarrow> real \<Rightarrow> real \<Rightarrow> real \<Rightarrow> real \<Rightarrow> real \<Rightarrow> py_error + real" where
  "calculate_standard current_ph target_ph cec_soil fine_dry_soil nv dose =
     (if current_ph \<ge> target_ph then Inr 0.0
      else
        (let numerator = (cec_soil * 150 / 3500) * fine_dry_soil;
             ph_difference = target_ph - current_ph
         in case py_div numerator (nv * 10) of
              Inl e \<Rightarrow> Inl e
            | Inr q \<Rightarrow>
                (let lime_requirement = (q / 0.5) * (ph_difference * dose) * 1000
                 in Inr (max 0.0 lime_requirement))))"

text \<open>\<open>CECCalculator._s_cec_to_ph\<close> and \<open>_calculate_with_modified_s_cec\<close>.\<close>

definition s_cec_to_ph :: "real \<Rightarrow> real" where
  "s_cec_to_ph s_cec_percentage =
     (if s_cec_percentage \<le> 50 then 4.5 + (s_cec_percentage / 50) * 2.0
      else 6.5 + ((s_cec_percentage - 50) / 50) * 1.5)"

definition calculate_with_modified_s_cec ::
  "real \<Rightarrow> real \<Rightarrow> real \<Rightarrow> real \<Rightarrow> real \<Rightarrow> real \<Rightarrow> real \<Rightarrow> real \<Rightarrow> py_error + real" where
  "calculate_with_modified_s_cec current_ph target_ph cec_soil fine_dry_soil nv dose
       s_cec_percentage modified_s_cec =
     (let calculated_s_cec_ph = s_cec_to_ph modified_s_cec;
          average_ph = (current_ph + calculated_s_cec_ph) / 2
      in if average_ph > target_ph then Inr 0.0
         else
           (case calculate_standard current_ph target_ph cec_soil fine_dry_soil nv dose of
              Inl e \<Rightarrow> Inl e
            | Inr qty_current \<Rightarrow>
                (case calculate_standard calculated_s_cec_ph target_ph cec_soil fine_dry_soil
                        nv dose of
                   Inl e \<Rightarrow> Inl e
                 | Inr qty_s_cec \<Rightarrow> Inr ((qty_current + qty_s_cec) / 2))))"

text \<open>
  The tail of \<open>CECCalculator.calculate_lime_requirement\<close> (source lines 825 to 835): the
  standard formula unless both saturation percentages are given.
\<close>

definition cec_forward ::
  "real \<Rightarrow> real \<Rightarrow> real \<Rightarrow> real \<Rightarrow> real \<Rightarrow> real \<Rightarrow> real option \<Rightarrow> real option
     \<Rightarrow> py_error + real" where
  "cec_forward current_ph effective_target_ph cec_soil fine_dry_soil nv dose
       s_cec_percentage modified_s_cec =
     (case (modified_s_cec, s_cec_percentage) of
        (Some m, Some s) \<Rightarrow>
          calculate_with_modified_s_cec current_ph effective_target_ph cec_soil fine_dry_soil
            nv dose s m
      | _ \<Rightarrow> calculate_standard current_ph effective_target_ph cec_soil fine_dry_soil nv dose)"

text \<open>
  \<open>CECCalculator.calculate_lime_requirement\<close>. The test
  \<open>current_ph >= target_ph - 0.1\<close> of the mode \<open>Automatic\<close> compares the double of the
  current pH with the rounded difference.
\<close>

definition CEC_calculate_lime_requirement ::
  "real \<Rightarrow> real \<Rightarrow> real \<Rightarrow> real \<Rightarrow> real \<Rightarrow> real \<Rightarrow> real option \<Rightarrow> real option \<Rightarrow> string
     \<Rightarrow> real option \<Rightarrow> real logged" where
  "CEC_calculate_lime_requirement current_ph target_ph cec_soil fine_dry_soil nv dose
       s_cec_percentage modified_s_cec liming_mode caco3_loss_kg_ha =
     (if liming_mode = ''pH Maintenance'' then
        (if current_ph \<ge> target_ph then ([INFO], Inr 0.0)
         else
           (case caco3_loss_kg_ha of
              Some loss \<Rightarrow>
                (let cao_loss_kg_ha = loss / 1.785 in
                 case py_div 100 nv of
                   Inl e \<Rightarrow> ([], Inl e)
                 | Inr q \<Rightarrow> ([INFO], Inr (cao_loss_kg_ha * q)))
            | None \<Rightarrow> ([WARNING], Inr 0.0)))
      else if liming_mode = ''Automatic'' then
        (if current_ph > target_ph then ([], Inr 0.0)
         else if to_double current_ph \<ge> float_sub target_ph 0.1 then
           (case caco3_loss_kg_ha of
              Some loss \<Rightarrow>
                (case py_div 100 nv of
                   Inl e \<Rightarrow> ([], Inl e)
                 | Inr q \<Rightarrow> ([INFO], Inr (loss * q)))
            | None \<Rightarrow>
                ([], cec_forward current_ph (current_ph + 0.1) cec_soil fine_dry_soil nv dose
                       s_cec_percentage modified_s_cec))
         else
           ([], cec_forward current_ph target_ph cec_soil fine_dry_soil nv dose
                  s_cec_percentage modified_s_cec))
      else
        ([], cec_forward current_ph target_ph cec_soil fine_dry_soil nv dose
               s_cec_percentage modified_s_cec))"

text \<open>
  \<open>CECCalculator.reverse_calculate_ph\<close>. \<open>K\<close> is computed, with its division by
  \<open>nv * 10\<close>, before the test \<open>K * dose == 0\<close>.
\<close>

definition CEC_reverse_calculate_ph ::
  "real \<Rightarrow> real \<Rightarrow> real \<Rightarrow> real \<Rightarrow> real \<Rightarrow> real \<Rightarrow> py_error + real" where
  "CEC_reverse_calculate_ph lime_kg_ha current_ph cec_soil fine_dry_soil nv dose =
     (if lime_kg_ha \<le> 0 then Inr current_ph
      else
        (let numerator = (cec_soil * 150 / 3500) * fine_dry_soil in
         case py_div numerator (nv * 10) of
           Inl e \<Rightarrow> Inl e
         | Inr q \<Rightarrow>
             (let K = (q / 0.5) * 1000 in
              if K * dose = 0 then Inr current_ph
              else Inr (current_ph + lime_kg_ha / (K * dose)))))"

section \<open>The leaching-loss model: bicarbonate factor\<close>

text \<open>
  \<open>get_bicarbonate_factor\<close> of \<open>utils/rainfall_lookup.py\<close>. Python's \<open>ph ** b\<close> with a
  negative float \<open>ph\<close> and the non-integral exponent \<open>b\<close> is a complex number, which
  \<open>min\<close> cannot compare with \<open>500.0\<close>: the call raises \<open>TypeError\<close>. For \<open>ph = 0\<close> the
  power is \<open>0.0\<close>, as \<open>0 powr b\<close> is.
\<close>

definition get_bicarbonate_factor :: "real \<Rightarrow> py_error + real" where
  "get_bicarbonate_factor ph =
     (let a = 0.002304; b = 5.792337 in
      if ph < 0 then Inl TypeError
      else (let bicarb_factor = a * (ph powr b) in Inr (max 5.0 (min 500.0 bicarb_factor))))"

section \<open>LimingPrescription\<close>

text \<open>
  The keys of a sample and of the method parameters that the two prescription functions
  read. A field is \<open>None\<close> when the dictionary has no such key (or binds it to Python's
  \<open>None\<close> where the source reads it with a plain \<open>get\<close>); \<open>param_get\<close> is
  \<open>dict.get(key, default)\<close> on such a field.
\<close>

record sample =
  s_ph_value :: "real option"
  s_soil_texture :: "string option"
  s_caco3_loss_kg_ha :: "real option"

record params =
  p_crop_type :: "string option"
  p_lime_type :: "string option"
  p_liming_mode :: "string option"
  p_default_soil_texture :: "string option"
  p_max_application_rate :: "real option"
  p_nv :: "real option"
  p_target_ph :: "real option"
  p_cec_soil :: "real option"
  p_fine_dry_soil :: "real option"
  p_dose :: "real option"
  p_s_cec_percentage :: "real option"
  p_modified_s_cec :: "real option"

definition param_get :: "'a option \<Rightarrow> 'a \<Rightarrow> 'a" where
  "param_get field dflt = (case field of None \<Rightarrow> dflt | Some v \<Rightarrow> v)"

text \<open>The returned tuple \<open>(lime_requirement, applied_mode, target_ph, was_capped)\<close>.\<close>

type_synonym prescription = "real \<times> string \<times> real option \<times> bool"

text \<open>
  The mode that is reported as applied (source lines 1134 to 1147 and 1208 to 1221),
  from the requested mode, the current pH and the optimal or target pH. The lower edge of
  the band, \<open>optimal_ph - 0.1\<close>, is the rounded difference.
\<close>

definition vdlufa_applied_mode :: "string \<Rightarrow> real \<Rightarrow> real \<Rightarrow> string" where
  "vdlufa_applied_mode liming_mode current_ph optimal_ph =
     (if liming_mode = ''Automatic'' then
        (if current_ph > optimal_ph then ''None (pH above optimal)''
         else if to_double current_ph \<ge> float_sub optimal_ph 0.1 then ''Maintenance''
         else ''Improvement'')
      else if liming_mode = ''pH Maintenance'' then
        (if current_ph \<ge> optimal_ph then ''None (pH at/above optimal)'' else ''Maintenance'')
      else ''Improvement'')"

definition cec_applied_mode :: "string \<Rightarrow> real \<Rightarrow> real \<Rightarrow> string" where
  "cec_applied_mode liming_mode current_ph target_ph =
     (if liming_mode = ''Automatic'' then
        (if current_ph > target_ph then ''None (pH above target)''
         else if to_double current_ph \<ge> float_sub target_ph 0.1 then ''Maintenance''
         else ''Improvement'')
      else if liming_mode = ''pH Maintenance'' then
        (if current_ph \<ge> target_ph then ''None (pH at/above target)'' else ''Maintenance'')
      else ''Improvement'')"

text \<open>
  The leaching loss handed to a calculator:
  \<open>sample.get('caco3_loss_kg_ha') if liming_mode in ["pH Maintenance", "Automatic"] else None\<close>.
\<close>

definition passed_caco3_loss :: "sample \<Rightarrow> string \<Rightarrow> real option" where
  "passed_caco3_loss smp liming_mode =
     (if liming_mode = ''pH Maintenance'' \<or> liming_mode = ''Automatic''
      then s_caco3_loss_kg_ha smp else None)"

text \<open>
  The texture that \<open>_calculate_vdlufa_prescription\<close> works with: the sample's, or the
  configured default when the sample has none.
\<close>

definition vdlufa_soil_texture :: "sample \<Rightarrow> params \<Rightarrow> string option" where
  "vdlufa_soil_texture smp prm =
     (case s_soil_texture smp of
        None \<Rightarrow> Some (param_get (p_default_soil_texture prm) ''Sandiger Schl Lehm'')
      | Some t \<Rightarrow> Some t)"

text \<open>The nominal dose of the empirical method: the calculator call of line 1152.\<close>

definition vdlufa_lime_req :: "sample \<Rightarrow> params \<Rightarrow> real \<Rightarrow> real logged" where
  "vdlufa_lime_req smp prm current_ph =
     (let crop_type = param_get (p_crop_type prm) ''Standard crops'';
          lime_type = param_get (p_lime_type prm) ''CaCO3'';
          liming_mode = param_get (p_liming_mode prm) ''pH Improvement'';
          caco3_loss = passed_caco3_loss smp liming_mode;
          nv = param_get (p_nv prm) 100.0
      in VDLUFA_calculate_lime_requirement current_ph (vdlufa_soil_texture smp prm) crop_type
           lime_type liming_mode caco3_loss nv)"

text \<open>\<open>LimingPrescription._calculate_vdlufa_prescription\<close>.\<close>

definition calculate_vdlufa_prescription :: "sample \<Rightarrow> params \<Rightarrow> prescription logged" where
  "calculate_vdlufa_prescription smp prm =
     (case s_ph_value smp of
        None \<Rightarrow> ([], Inr (0.0, ''N/A'', None, False))
      | Some current_ph \<Rightarrow>
          (let soil_texture = vdlufa_soil_texture smp prm;
               crop_type = param_get (p_crop_type prm) ''Standard crops'';
               lime_type = param_get (p_lime_type prm) ''CaCO3'';
               liming_mode = param_get (p_liming_mode prm) ''pH Improvement'';
               mapped_texture = map_soil_texture soil_texture;
               optimal_ph = get_optimal_ph mapped_texture crop_type;
               applied_mode = vdlufa_applied_mode liming_mode current_ph optimal_ph;
               called = vdlufa_lime_req smp prm current_ph;
               target_ph = (if liming_mode = ''pH Maintenance'' then current_ph else optimal_ph)
           in case snd called of
                Inl e \<Rightarrow> (fst called, Inl e)
              | Inr lime_req \<Rightarrow>
                  (case p_max_application_rate prm of
                     None \<Rightarrow> (fst called, Inr (lime_req, applied_mode, Some target_ph, False))
                   | Some max_rate \<Rightarrow>
                       if lime_req > max_rate then
                         (if liming_mode = ''pH Maintenance''
                          then (fst called, Inr (max_rate, applied_mode, Some target_ph, True))
                          else
                            (let reversed = VDLUFA_reverse_calculate_ph max_rate soil_texture
                                              crop_type lime_type (Some current_ph)
                             in case snd reversed of
                                  Inl e \<Rightarrow> (fst called @ fst reversed, Inl e)
                                | Inr achieved \<Rightarrow>
                                    (fst called @ fst reversed,
                                     Inr (max_rate, applied_mode, Some achieved, True))))
                       else (fst called, Inr (lime_req, applied_mode, Some target_ph, False)))))"




section \<open>Properties\<close>

lemmas str_defs = str_upper_def str_lower_def upper_char_def lower_char_def
  ascii_lowercase_def ascii_uppercase_def

subsection \<open>Binary64 rounding at the edge of the band\<close>

text \<open>
  The binade of a real is found from powers of two, which gives the double of a decimal
  by arithmetic on rationals.
\<close>

lemma pow2_powr: "pow2 e = 2 powr (of_int e)"
proof (cases "0 \<le> e")
  case True
  then have "2 powr (of_int e) = (2::real) ^ nat e"
    by (simp add: powr_realpow [symmetric])
  with True show ?thesis by (simp add: pow2_def)
next
  case False
  then have "2 powr (of_int e) = 1 / (2::real) powr (of_int (- e))"
    by (simp add: powr_minus divide_inverse)
  also have "(2::real) powr (of_int (- e)) = 2 ^ nat (- e)"
    using False by (simp add: powr_realpow [symmetric])
  finally show ?thesis using False by (simp add: pow2_def)
qed

lemma binade_eqI:
  assumes "pow2 e \<le> \<bar>r\<bar>" and "\<bar>r\<bar> < pow2 (e + 1)"
  shows "binade r = e"
proof -
  have pos: "0 < \<bar>r\<bar>"
  proof -
    have "0 < pow2 e" by (simp add: pow2_powr)
    with assms(1) show ?thesis by linarith
  qed
  have lo: "of_int e \<le> log 2 \<bar>r\<bar>"
    using assms(1) pos by (simp add: le_log_iff pow2_powr)
  have hi: "log 2 \<bar>r\<bar> < of_int e + 1"
    using assms(2) pos by (simp add: log_less_iff pow2_powr)
  show ?thesis unfolding binade_def using lo hi by (simp add: floor_eq_iff)
qed

lemma to_double_eval:
  assumes "pow2 e \<le> \<bar>r\<bar>" and "\<bar>r\<bar> < pow2 (e + 1)"
  shows "to_double r = of_int (round_half_even (r / pow2 (e - 52))) * pow2 (e - 52)"
proof -
  have "r \<noteq> 0"
  proof
    assume "r = 0"
    moreover have "0 < pow2 e" by (simp add: pow2_powr)
    ultimately show False using assms(1) by simp
  qed
  then show ?thesis
    by (simp add: to_double_def Let_def binade_eqI [OF assms])
qed

lemmas rounding_defs = pow2_def round_half_even_def Let_def

lemma to_double_0_1: "to_double (1 / 10) = 3602879701896397 / 36028797018963968"
  by (subst to_double_eval [where e = "- 4"]) (simp_all add: rounding_defs)

lemma to_double_5_9: "to_double (59 / 10) = 3321404725185741 / 562949953421312"
  by (subst to_double_eval [where e = 2]) (simp_all add: rounding_defs)

lemma to_double_5_8: "to_double (29 / 5) = 6530219459687219 / 1125899906842624"
  by (subst to_double_eval [where e = 2]) (simp_all add: rounding_defs)

lemma to_double_5_85: "to_double (117 / 20) = 3293257227514675 / 562949953421312"
  by (subst to_double_eval [where e = 2]) (simp_all add: rounding_defs)

lemma to_double_6_5: "to_double (13 / 2) = 13 / 2"
  by (subst to_double_eval [where e = 2]) (simp_all add: rounding_defs)

lemma to_double_6_45: "to_double (129 / 20) = 7262054399134925 / 1125899906842624"
  by (subst to_double_eval [where e = 2]) (simp_all add: rounding_defs)

lemma float_sub_5_9: "float_sub (59 / 10) (1 / 10) = 1632554864921805 / 281474976710656"
  unfolding float_sub_def to_double_0_1 to_double_5_9
  by (subst to_double_eval [where e = 2]) (simp_all add: rounding_defs)

lemma float_sub_6_5: "float_sub (13 / 2) (1 / 10) = 3602879701896397 / 562949953421312"
  unfolding float_sub_def to_double_0_1 to_double_6_5
  by (subst to_double_eval [where e = 2]) (simp_all add: rounding_defs)

text \<open>
  The edge of the band below the reference 5.9 lies above the double of 5.8: a sample at
  pH 5.8 is outside the band, one at 5.85 inside. Below the reference 6.5 the edge is the
  double of 6.4. At pH 5.8 with the reference 5.9 the mode \<open>Automatic\<close> is reported as
  \<open>Improvement\<close>, and the CEC calculator takes the forward formula, without a log record,
  even when a leaching loss is given.
\<close>

lemma band_edge_5_9:
  "\<not> to_double 5.8 \<ge> float_sub 5.9 0.1 \<and> to_double 5.85 \<ge> float_sub 5.9 0.1"
  by (simp add: to_double_5_8 to_double_5_85 float_sub_5_9)

lemma band_6_5: "to_double 6.45 \<ge> float_sub 6.5 0.1"
  by (simp add: to_double_6_45 float_sub_6_5)

lemma edge_vdlufa: "vdlufa_applied_mode ''Automatic'' 5.8 5.9 = ''Improvement''"
  by (simp add: vdlufa_applied_mode_def to_double_5_8 float_sub_5_9)

lemma edge_cec:
  "CEC_calculate_lime_requirement 5.8 5.9 10 1500 53 1 None None ''Automatic'' (Some 130)
     = ([], Inr (90000 / 371))
   \<and> cec_applied_mode ''Automatic'' 5.8 5.9 = ''Improvement''"
  by (simp add: CEC_calculate_lime_requirement_def cec_applied_mode_def cec_forward_def
      calculate_standard_def py_div_def to_double_5_8 float_sub_5_9)

subsection \<open>The CEC forward formula\<close>

lemma calculate_standard_at_or_above_target:
  "target_ph \<le> current_ph \<Longrightarrow>
     calculate_standard current_ph target_ph cec_soil fine_dry_soil nv dose = Inr 0"
  by (simp add: calculate_standard_def)

lemma calculate_standard_below_target:
  assumes "current_ph < target_ph" and "nv \<noteq> 0"
  shows "calculate_standard current_ph target_ph cec_soil fine_dry_soil nv dose =
           Inr (max 0 ((((cec_soil * 150 / 3500) * fine_dry_soil) / (nv * 10) / 0.5)
                        * (target_ph - current_ph) * dose * 1000))"
  using assms by (simp add: calculate_standard_def py_div_def Let_def mult.assoc)

lemma calculate_standard_nv_zero:
  "current_ph < target_ph \<Longrightarrow>
     calculate_standard current_ph target_ph cec_soil fine_dry_soil 0 dose = Inl ZeroDivisionError"
  by (simp add: calculate_standard_def py_div_def)

text \<open>
  Claim C4, as the code has it. For \<open>current_ph < target_ph\<close> and a non-zero \<open>nv\<close>,
  \<open>_calculate_standard\<close> (and \<open>calculate_lime_requirement\<close> in improvement mode without
  the saturation pair) returns the formula
  \<open>(((cec_soil * 150/3500) * fine_dry_soil) / (nv * 10) / 0.5) * (target_ph - current_ph) * dose * 1000\<close>
  clamped below at zero by the source's \<open>max(0.0, ...)\<close>; at or above the target it returns 0;
  and the scenario 5.8, 6.5, 10.0, 1500, 53, 1.0 gives 90000/53, within 0.02 of 1698.1.
\<close>

theorem cec_forward_requirement:
  "(current_ph < target_ph \<and> nv \<noteq> 0 \<longrightarrow>
      calculate_standard current_ph target_ph cec_soil fine_dry_soil nv dose =
        Inr (max 0 ((((cec_soil * 150 / 3500) * fine_dry_soil) / (nv * 10) / 0.5)
                     * (target_ph - current_ph) * dose * 1000))
      \<and> CEC_calculate_lime_requirement current_ph target_ph cec_soil fine_dry_soil nv dose
           None None ''pH Improvement'' loss =
          ([], Inr (max 0 ((((cec_soil * 150 / 3500) * fine_dry_soil) / (nv * 10) / 0.5)
                     * (target_ph - current_ph) * dose * 1000))))
   \<and> (target_ph \<le> current_ph \<longrightarrow>
        calculate_standard current_ph target_ph cec_soil fine_dry_soil nv dose = Inr 0
        \<and> CEC_calculate_lime_requirement current_ph target_ph cec_soil fine_dry_soil nv dose
           None None ''pH Improvement'' loss = ([], Inr 0))
   \<and> calculate_standard 5.8 6.5 10.0 1500 53 1.0 = Inr (90000 / 53)
   \<and> \<bar>90000 / 53 - 1698.1\<bar> < (0.02 :: real)"
proof -
  have fwd: "CEC_calculate_lime_requirement current_ph target_ph cec_soil fine_dry_soil nv dose
           None None ''pH Improvement'' loss =
        ([], calculate_standard current_ph target_ph cec_soil fine_dry_soil nv dose)"
    by (simp add: CEC_calculate_lime_requirement_def cec_forward_def)
  have b: "calculate_standard 5.8 6.5 10.0 1500 53 1.0 = Inr (90000 / 53)"
    by (simp add: calculate_standard_def py_div_def)
  have c: "\<bar>90000 / 53 - 1698.1\<bar> < (0.02 :: real)" by simp
  show ?thesis
    using calculate_standard_below_target [of current_ph target_ph nv cec_soil fine_dry_soil dose]
      calculate_standard_at_or_above_target [of target_ph current_ph cec_soil fine_dry_soil nv dose]
      b c
    by (simp add: fwd)
qed

theorem cec_forward_requirement_witness:
  "(5.8::real) < 6.5 \<and> (53::real) \<noteq> 0
   \<and> calculate_standard 5.8 6.5 10 1500 53 1 = Inr (90000 / 53)
   \<and> CEC_calculate_lime_requirement 5.8 6.5 10 1500 53 1 None None ''pH Improvement'' None
         = ([], Inr (90000 / 53))
   \<and> calculate_standard 6.8 6.5 10 1500 53 1 = Inr 0"
  using cec_forward_requirement [where current_ph = "5.8" and target_ph = "6.5" and nv = 53
      and cec_soil = 10 and fine_dry_soil = 1500 and dose = 1 and loss = None]
    cec_forward_requirement [where current_ph = "6.8" and target_ph = "6.5" and nv = 53
      and cec_soil = 10 and fine_dry_soil = 1500 and dose = 1 and loss = None]
  by simp

text \<open>
  With a negative dose factor the formula is negative and the code returns 0: the
  unclamped equation of the claim does not hold for all inputs below the target.
\<close>

theorem cec_forward_negative_dose_counterexample:
  "(5.8::real) < 6.5
   \<and> calculate_standard 5.8 6.5 10 1500 53 (- 1) = Inr 0
   \<and> ((((10 * 150 / 3500) * 1500) / (53 * 10) / 0.5) * (6.5 - 5.8) * (- 1) * 1000 :: real) = - (90000 / 53)
   \<and> calculate_standard 5.8 6.5 10 1500 53 (- 1)
       \<noteq> Inr ((((10 * 150 / 3500) * 1500) / (53 * 10) / 0.5) * (6.5 - 5.8) * (- 1) * 1000)"
  by (simp add: calculate_standard_def py_div_def)

subsection \<open>The CEC round trip\<close>

text \<open>
  Claim C5, as the code has it. For \<open>current_ph < target_ph\<close> and \<open>K * dose > 0\<close>, where
  \<open>K\<close> is the factor that \<open>reverse_calculate_ph\<close> recomputes, the forward requirement is
  positive and the inverse of it is exactly the target pH (over the reals).
\<close>

theorem cec_round_trip:
  assumes "current_ph < target_ph"
    and "((((cec_soil * 150 / 3500) * fine_dry_soil) / (nv * 10) / 0.5) * 1000) * dose > 0"
  shows "\<exists>lime. calculate_standard current_ph target_ph cec_soil fine_dry_soil nv dose = Inr lime
           \<and> lime > 0
           \<and> CEC_reverse_calculate_ph lime current_ph cec_soil fine_dry_soil nv dose
                = Inr target_ph"
proof -
  define q where "q = ((cec_soil * 150 / 3500) * fine_dry_soil) / (nv * 10)"
  define K where "K = (q / 0.5) * 1000"
  have Kd: "K * dose > 0" using assms(2) by (simp add: K_def q_def)
  have nv: "nv \<noteq> 0"
  proof
    assume "nv = 0"
    then have "K = 0" by (simp add: K_def q_def)
    with Kd show False by simp
  qed
  have div: "py_div ((cec_soil * 150 / 3500) * fine_dry_soil) (nv * 10) = Inr q"
    using nv by (simp add: py_div_def q_def)
  define lime where "lime = (q / 0.5) * ((target_ph - current_ph) * dose) * 1000"
  have lime_eq: "lime = (K * dose) * (target_ph - current_ph)"
    by (simp add: lime_def K_def)
  have pos: "lime > 0" using Kd assms(1) by (simp add: lime_eq)
  have fwd: "calculate_standard current_ph target_ph cec_soil fine_dry_soil nv dose = Inr lime"
    unfolding calculate_standard_def Let_def div
    using assms(1) pos by (simp add: lime_def)
  have ne: "K * dose \<noteq> 0" using Kd by (rule less_imp_neq [THEN not_sym])
  have quot: "lime / (K * dose) = target_ph - current_ph"
    unfolding lime_eq by (rule nonzero_mult_div_cancel_left [OF ne])
  have "CEC_reverse_calculate_ph lime current_ph cec_soil fine_dry_soil nv dose
          = Inr (current_ph + lime / (K * dose))"
    unfolding CEC_reverse_calculate_ph_def Let_def div K_def
    using pos ne [unfolded K_def] by simp
  then have rev:
    "CEC_reverse_calculate_ph lime current_ph cec_soil fine_dry_soil nv dose = Inr target_ph"
    by (simp add: quot)
  from fwd pos rev show ?thesis by blast
qed

theorem cec_round_trip_witness:
  "(5.8::real) < 6.5
   \<and> ((((10 * 150 / 3500) * 1500) / (53 * 10) / 0.5) * 1000) * 1 > (0::real)
   \<and> calculate_standard 5.8 6.5 10 1500 53 1 = Inr (90000 / 53)
   \<and> CEC_reverse_calculate_ph (90000 / 53) 5.8 10 1500 53 1 = Inr 6.5"
proof -
  have a: "(5.8::real) < 6.5" by simp
  have b: "((((10 * 150 / 3500) * 1500) / (53 * 10) / 0.5) * 1000) * 1 > (0::real)" by simp
  from cec_round_trip [OF a b] obtain lime
    where fwd: "calculate_standard 5.8 6.5 10 1500 53 1 = Inr lime"
      and rev: "CEC_reverse_calculate_ph lime 5.8 10 1500 53 1 = Inr 6.5"
    by blast
  have val: "calculate_standard 5.8 6.5 10 1500 53 1 = Inr (90000 / 53)"
    by (simp add: calculate_standard_def py_div_def)
  from fwd val have "lime = 90000 / 53" by simp
  with rev val a b show ?thesis by simp
qed

text \<open>
  For \<open>K * dose < 0\<close> the forward requirement is clamped to 0 and the inverse of 0 is the
  current pH, not the target: \<open>K * dose \<noteq> 0\<close> alone is not enough.
\<close>

theorem cec_round_trip_negative_dose_counterexample:
  "(5.8::real) < 6.5
   \<and> ((((10 * 150 / 3500) * 1500) / (53 * 10) / 0.5) * 1000) * (- 1) \<noteq> (0::real)
   \<and> calculate_standard 5.8 6.5 10 1500 53 (- 1) = Inr 0
   \<and> CEC_reverse_calculate_ph 0 5.8 10 1500 53 (- 1) = Inr 5.8
   \<and> CEC_reverse_calculate_ph 0 5.8 10 1500 53 (- 1) \<noteq> Inr 6.5"
  by (simp add: calculate_standard_def CEC_reverse_calculate_ph_def py_div_def)

subsection \<open>The inverse of the CEC method at a zero neutralizing value\<close>

text \<open>
  Claim C7 does not hold of the code: in \<open>CECCalculator.reverse_calculate_ph\<close> the
  division by \<open>nv * 10\<close> comes before the guard \<open>K * dose == 0\<close>, so a positive lime
  amount with \<open>nv = 0\<close> raises \<open>ZeroDivisionError\<close> instead of returning the current pH.
\<close>

theorem CEC_reverse_nv_zero_raises:
  "CEC_reverse_calculate_ph 1000 5.8 10 1500 0 1 = Inl ZeroDivisionError"
  by (simp add: CEC_reverse_calculate_ph_def py_div_def)

subsection \<open>The dose curves against the optimal-pH table\<close>

text \<open>
  Claim C6 does not hold of the code. For other crops on sand the table gives the optimal
  pH 5.1, and at pH 5.1 the curve still asks for 0.8 dt/ha (80 kg/ha of CaO in improvement
  mode). The curves are not monotone either: for standard crops on
  \<open>Stark Lehmiger Sand\<close> the dose rises from 87 just below pH 4 to 110.892 at pH 4, and
  from 15.068 at pH 6.0 to 15.8 at pH 6.01.
\<close>

theorem other_crops_dose_positive_at_optimal_ph:
  "get_optimal_ph (Some ''Sand'') ''Other crops'' = 5.1
   \<and> calculate_other_crops 5.1 (Some ''Sand'') = 0.8
   \<and> VDLUFA_calculate_lime_requirement 5.1 (Some ''Sand'') ''Other crops'' ''CaO''
         ''pH Improvement'' None 100 = ([], Inr 80)
   \<and> calculate_standard_crops 3.9 (Some ''Stark Lehmiger Sand'') = 87
   \<and> calculate_standard_crops 4 (Some ''Stark Lehmiger Sand'') = 110.892
   \<and> calculate_standard_crops 6.0 (Some ''Stark Lehmiger Sand'') = 15.068
   \<and> calculate_standard_crops 6.01 (Some ''Stark Lehmiger Sand'') = 15.8"
  by (simp add: get_optimal_ph_def optimal_ph_values_def calculate_other_crops_def
      calculate_standard_crops_def VDLUFA_calculate_lime_requirement_def map_soil_texture_def
      TEXTURE_MAPPING_def convert_lime_type_def LIME_CONVERSION_FACTORS_def)

subsection \<open>The texture resolver against the vocabulary\<close>

text \<open>
  Claim C10 does not hold of the code: for the input \<open>loam\<close> the keyword branch returns
  \<open>Stark Lehm Sand\<close>, which is not one of the five \<open>SOIL_TEXTURES\<close> (the vocabulary has
  \<open>Stark Lehmiger Sand\<close>), so the optimal-pH table answers with its default 6.5 and the
  dose curve of other crops with its unknown-texture value 0.
\<close>

theorem map_soil_texture_loam_outside_vocabulary:
  "map_soil_texture (Some ''loam'') = Some ''Stark Lehm Sand''
   \<and> ''Stark Lehm Sand'' \<notin> set SOIL_TEXTURES
   \<and> get_optimal_ph (map_soil_texture (Some ''loam'')) ''Standard crops'' = 6.5
   \<and> calculate_other_crops 4 (map_soil_texture (Some ''loam'')) = 0"
  by (simp add: map_soil_texture_def TEXTURE_MAPPING_def str_defs SOIL_TEXTURES_def
      get_optimal_ph_def optimal_ph_values_def calculate_other_crops_def)

subsection \<open>Maintenance mode\<close>

lemma VDLUFA_maintenance_cases:
  "VDLUFA_calculate_lime_requirement current_ph soil_texture crop_type lime_type
       ''pH Maintenance'' caco3_loss_kg_ha nv =
     (if get_optimal_ph (map_soil_texture soil_texture) crop_type \<le> current_ph
        then ([INFO], Inr 0)
      else case caco3_loss_kg_ha of
             Some loss \<Rightarrow>
               (case py_div 100 nv of
                  Inl e \<Rightarrow> ([], Inl e)
                | Inr q \<Rightarrow> ([INFO], Inr (loss / 1.785 * q)))
           | None \<Rightarrow> ([WARNING], Inr 0))"
  by (simp add: VDLUFA_calculate_lime_requirement_def Let_def split: option.splits sum.splits)

lemma CEC_maintenance_cases:
  "CEC_calculate_lime_requirement current_ph target_ph cec_soil fine_dry_soil nv dose
       s_cec_percentage modified_s_cec ''pH Maintenance'' caco3_loss_kg_ha =
     (if target_ph \<le> current_ph then ([INFO], Inr 0)
      else case caco3_loss_kg_ha of
             Some loss \<Rightarrow>
               (case py_div 100 nv of
                  Inl e \<Rightarrow> ([], Inl e)
                | Inr q \<Rightarrow> ([INFO], Inr (loss / 1.785 * q)))
           | None \<Rightarrow> ([WARNING], Inr 0))"
  by (simp add: CEC_calculate_lime_requirement_def Let_def split: option.splits sum.splits)

lemma maintenance_nv_zero_raises:
  "current_ph < target_ph \<Longrightarrow>
     CEC_calculate_lime_requirement current_ph target_ph cec_soil fine_dry_soil 0 dose
       s_cec_percentage modified_s_cec ''pH Maintenance'' (Some loss) = ([], Inl ZeroDivisionError)"
  by (simp add: CEC_maintenance_cases py_div_def)

text \<open>
  Claim C2. In the mode \<open>pH Maintenance\<close>, both calculators return 0 when the current pH
  is at or above the reference (the optimal pH of the texture and crop for the empirical
  method, the target pH for the CEC method), whatever the leaching loss; below the
  reference, a given loss yields \<open>(loss / 1.785) * (100 / nv)\<close> (for the non-zero \<open>nv\<close>
  that the quotient needs), and a missing loss yields 0 with one record of level WARNING.
  The dose curve and the CEC formula do not occur in any of the three results.
\<close>

theorem maintenance_mode_dose:
  "(get_optimal_ph (map_soil_texture soil_texture) crop_type \<le> current_ph \<longrightarrow>
      snd (VDLUFA_calculate_lime_requirement current_ph soil_texture crop_type lime_type
             ''pH Maintenance'' caco3_loss_kg_ha nv) = Inr 0)
   \<and> (current_ph < get_optimal_ph (map_soil_texture soil_texture) crop_type \<and> nv \<noteq> 0 \<longrightarrow>
        VDLUFA_calculate_lime_requirement current_ph soil_texture crop_type lime_type
          ''pH Maintenance'' (Some loss) nv = ([INFO], Inr ((loss / 1.785) * (100 / nv))))
   \<and> (current_ph < get_optimal_ph (map_soil_texture soil_texture) crop_type \<longrightarrow>
        VDLUFA_calculate_lime_requirement current_ph soil_texture crop_type lime_type
          ''pH Maintenance'' None nv = ([WARNING], Inr 0))
   \<and> (target_ph \<le> current_ph \<longrightarrow>
        snd (CEC_calculate_lime_requirement current_ph target_ph cec_soil fine_dry_soil nv dose
               s_cec_percentage modified_s_cec ''pH Maintenance'' caco3_loss_kg_ha) = Inr 0)
   \<and> (current_ph < target_ph \<and> nv \<noteq> 0 \<longrightarrow>
        CEC_calculate_lime_requirement current_ph target_ph cec_soil fine_dry_soil nv dose
          s_cec_percentage modified_s_cec ''pH Maintenance'' (Some loss)
          = ([INFO], Inr ((loss / 1.785) * (100 / nv))))
   \<and> (current_ph < target_ph \<longrightarrow>
        CEC_calculate_lime_requirement current_ph target_ph cec_soil fine_dry_soil nv dose
          s_cec_percentage modified_s_cec ''pH Maintenance'' None = ([WARNING], Inr 0))"
  by (simp add: VDLUFA_maintenance_cases CEC_maintenance_cases py_div_def)

theorem maintenance_mode_dose_witness:
  "get_optimal_ph (map_soil_texture (Some ''Sand'')) ''Standard crops'' = 5.9
   \<and> (5.2::real) < 5.9 \<and> (5.2::real) < 6.5 \<and> (53::real) \<noteq> 0
   \<and> VDLUFA_calculate_lime_requirement 5.2 (Some ''Sand'') ''Standard crops'' ''CaCO3''
        ''pH Maintenance'' (Some 130) 53 = ([INFO], Inr ((130 / 1.785) * (100 / 53)))
   \<and> VDLUFA_calculate_lime_requirement 5.2 (Some ''Sand'') ''Standard crops'' ''CaCO3''
        ''pH Maintenance'' None 53 = ([WARNING], Inr 0)
   \<and> CEC_calculate_lime_requirement 5.2 6.5 10 1500 53 1 None None ''pH Maintenance''
        (Some 130) = ([INFO], Inr ((130 / 1.785) * (100 / 53)))
   \<and> CEC_calculate_lime_requirement 5.2 6.5 10 1500 53 1 None None ''pH Maintenance''
        None = ([WARNING], Inr 0)
   \<and> (5.9::real) \<le> 7 \<and> (6.5::real) \<le> 7
   \<and> snd (VDLUFA_calculate_lime_requirement 7 (Some ''Sand'') ''Standard crops'' ''CaCO3''
        ''pH Maintenance'' (Some 130) 53) = Inr 0
   \<and> snd (CEC_calculate_lime_requirement 7 6.5 10 1500 53 1 None None ''pH Maintenance''
        (Some 130)) = Inr 0"
proof -
  have opt: "get_optimal_ph (map_soil_texture (Some ''Sand'')) ''Standard crops'' = 5.9"
    by (simp add: get_optimal_ph_def optimal_ph_values_def map_soil_texture_def
        TEXTURE_MAPPING_def)
  show ?thesis
    using
      maintenance_mode_dose [where soil_texture = "Some ''Sand''"
        and crop_type = "''Standard crops''" and current_ph = "5.2" and lime_type = "''CaCO3''"
        and caco3_loss_kg_ha = "Some 130" and nv = 53 and loss = 130 and target_ph = "6.5"
        and cec_soil = 10 and fine_dry_soil = 1500 and dose = 1 and s_cec_percentage = None
        and modified_s_cec = None]
      maintenance_mode_dose [where soil_texture = "Some ''Sand''"
        and crop_type = "''Standard crops''" and current_ph = 7 and lime_type = "''CaCO3''"
        and caco3_loss_kg_ha = "Some 130" and nv = 53 and loss = 130 and target_ph = "6.5"
        and cec_soil = 10 and fine_dry_soil = 1500 and dose = 1 and s_cec_percentage = None
        and modified_s_cec = None]
    by (simp add: opt)
qed

subsection \<open>Automatic mode of the empirical method\<close>

text \<open>
  What \<open>CECCalculator.calculate_lime_requirement\<close> does in the mode \<open>Automatic\<close>: nothing
  above the target, the leaching loss (or, without one, the formula towards
  \<open>current_ph + 0.1\<close>) within 0.1 below it, the formula towards the target further below.
\<close>

lemma CEC_automatic_cases:
  "CEC_calculate_lime_requirement current_ph target_ph cec_soil fine_dry_soil nv dose
       s_cec_percentage modified_s_cec ''Automatic'' caco3_loss_kg_ha =
     (if current_ph > target_ph then ([], Inr 0)
      else if to_double current_ph \<ge> float_sub target_ph 0.1 then
        (case caco3_loss_kg_ha of
           Some loss \<Rightarrow>
             (if nv = 0 then ([], Inl ZeroDivisionError) else ([INFO], Inr (loss * (100 / nv))))
         | None \<Rightarrow>
             ([], cec_forward current_ph (current_ph + 0.1) cec_soil fine_dry_soil nv dose
                    s_cec_percentage modified_s_cec))
      else ([], cec_forward current_ph target_ph cec_soil fine_dry_soil nv dose
                  s_cec_percentage modified_s_cec))"
  by (simp add: CEC_calculate_lime_requirement_def py_div_def split: option.splits)

text \<open>
  Claim C1 does not hold of the code for the empirical method. For a sand sample at pH
  5.85 under standard crops (optimal pH 5.9) in the mode \<open>Automatic\<close>, the prescription
  reports the applied mode \<open>Maintenance\<close>, and its dose is the improvement curve's
  59.58 kg/ha of CaO whatever leaching loss the sample carries; the same sample in the
  mode \<open>pH Maintenance\<close> gets the loss-derived dose, and the CEC calculator in the mode
  \<open>Automatic\<close> uses the loss within 0.1 below its target.
\<close>

theorem vdlufa_automatic_maintenance_band_uses_improvement_curve:
  "(\<forall>loss. calculate_vdlufa_prescription
       \<lparr>s_ph_value = Some 5.85, s_soil_texture = Some ''Sand'', s_caco3_loss_kg_ha = loss\<rparr>
       \<lparr>p_crop_type = Some ''Standard crops'', p_lime_type = Some ''CaO'',
        p_liming_mode = Some ''Automatic'', p_default_soil_texture = None,
        p_max_application_rate = None, p_nv = None, p_target_ph = None, p_cec_soil = None,
        p_fine_dry_soil = None, p_dose = None, p_s_cec_percentage = None,
        p_modified_s_cec = None\<rparr>
     = ([], Inr (59.58, ''Maintenance'', Some 5.9, False)))
   \<and> calculate_standard_crops 5.85 (Some ''Sand'') * 100 = 59.58
   \<and> VDLUFA_calculate_lime_requirement 5.85 (Some ''Sand'') ''Standard crops'' ''CaO''
        ''pH Maintenance'' (Some 130) 100 = ([INFO], Inr (130 / 1.785))
   \<and> CEC_calculate_lime_requirement 6.45 6.5 10 1500 53 1 None None ''Automatic'' (Some 130)
        = ([INFO], Inr (130 * (100 / 53)))"
  by (simp add: calculate_vdlufa_prescription_def vdlufa_soil_texture_def param_get_def
      map_soil_texture_def TEXTURE_MAPPING_def get_optimal_ph_def optimal_ph_values_def
      vdlufa_applied_mode_def vdlufa_lime_req_def passed_caco3_loss_def
      VDLUFA_calculate_lime_requirement_def calculate_standard_crops_def convert_lime_type_def
      LIME_CONVERSION_FACTORS_def CEC_calculate_lime_requirement_def py_div_def
      to_double_5_85 float_sub_5_9 to_double_6_45 float_sub_6_5)

subsection \<open>The cap on the application rate\<close>

lemma VDLUFA_improvement_value:
  "VDLUFA_calculate_lime_requirement current_ph soil_texture crop_type lime_type
       ''pH Improvement'' None nv =
     ([], Inr (convert_lime_type
                 ((if crop_type = ''Standard crops''
                   then calculate_standard_crops current_ph (map_soil_texture soil_texture)
                   else calculate_other_crops current_ph (map_soil_texture soil_texture)) * 100)
                 lime_type))"
  by (simp add: VDLUFA_calculate_lime_requirement_def Let_def)


text \<open>
  The guards of the two inverses that do hold: no lime applied, nothing needed to reach
  the optimal pH, and a zero exchange capacity, fine-dry-soil factor or dose factor (with
  a non-zero \<open>nv\<close>) all give the current pH back.
\<close>

lemma VDLUFA_reverse_no_lime:
  "lime_kg_ha \<le> 0 \<Longrightarrow>
     VDLUFA_reverse_calculate_ph lime_kg_ha soil_texture crop_type lime_type (Some current_ph)
       = ([], Inr current_ph)"
  by (simp add: VDLUFA_reverse_calculate_ph_def Let_def)

lemma VDLUFA_reverse_nothing_needed:
  assumes "snd (VDLUFA_calculate_lime_requirement current_ph soil_texture crop_type lime_type
                  ''pH Improvement'' None nv) = Inr to_optimal"
    and "to_optimal \<le> 0"
  shows "VDLUFA_reverse_calculate_ph lime_kg_ha soil_texture crop_type lime_type
           (Some current_ph) = ([], Inr current_ph)"
  using assms
  by (simp add: VDLUFA_reverse_calculate_ph_def Let_def VDLUFA_improvement_value)

lemma CEC_reverse_no_lime:
  "lime_kg_ha \<le> 0 \<Longrightarrow>
     CEC_reverse_calculate_ph lime_kg_ha current_ph cec_soil fine_dry_soil nv dose
       = Inr current_ph"
  by (simp add: CEC_reverse_calculate_ph_def)

lemma CEC_reverse_degenerate:
  "nv \<noteq> 0 \<Longrightarrow> cec_soil = 0 \<or> fine_dry_soil = 0 \<or> dose = 0 \<Longrightarrow>
     CEC_reverse_calculate_ph lime_kg_ha current_ph cec_soil fine_dry_soil nv dose
       = Inr current_ph"
  by (auto simp: CEC_reverse_calculate_ph_def py_div_def Let_def)

lemma CEC_reverse_nv_zero:
  "0 < lime_kg_ha \<Longrightarrow>
     CEC_reverse_calculate_ph lime_kg_ha current_ph cec_soil fine_dry_soil 0 dose
       = Inl ZeroDivisionError"
  by (simp add: CEC_reverse_calculate_ph_def py_div_def)













subsection \<open>When the texture resolver returns None\<close>

lemma TEXTURE_MAPPING_bound_to_None:
  "map_of TEXTURE_MAPPING s = Some None \<longleftrightarrow> s = ''Bog'' \<or> s = ''half-bog soil''"
  by (simp add: TEXTURE_MAPPING_def)

lemma upper_char_not_lowercase: "upper_char c \<notin> set ascii_lowercase"
  by (simp add: upper_char_def ascii_lowercase_def ascii_uppercase_def)

lemma str_upper_not_Bog: "str_upper s \<noteq> ''Bog''"
proof
  assume "str_upper s = ''Bog''"
  then have "CHR ''o'' \<in> set (map upper_char s)" by (simp add: str_upper_def)
  then obtain c where "upper_char c = CHR ''o''" by auto
  with upper_char_not_lowercase [of c] show False by (simp add: ascii_lowercase_def)
qed

lemma str_upper_not_half_bog_soil: "str_upper s \<noteq> ''half-bog soil''"
proof
  assume "str_upper s = ''half-bog soil''"
  then have "CHR ''h'' \<in> set (map upper_char s)" by (simp add: str_upper_def)
  then obtain c where "upper_char c = CHR ''h''" by auto
  with upper_char_not_lowercase [of c] show False by (simp add: ascii_lowercase_def)
qed

text \<open>
  Claim C8, as the code has it. \<open>map_soil_texture\<close> returns \<open>None\<close> for the input \<open>None\<close>,
  and for a string exactly when the string is one of the two keys that the table binds
  to \<open>None\<close> (\<open>Bog\<close>, \<open>half-bog soil\<close>), or is no key of the table, neither as it is nor
  upper-cased, and its lower-cased form contains none of the keywords sand, clay, loam,
  lehm, silt. Every other string resolves to a texture name.
\<close>

theorem map_soil_texture_None_iff:
  "map_soil_texture None = None
   \<and> (map_soil_texture (Some s) = None \<longleftrightarrow>
        s = ''Bog'' \<or> s = ''half-bog soil''
        \<or> (map_of TEXTURE_MAPPING s = None \<and> map_of TEXTURE_MAPPING (str_upper s) = None
           \<and> \<not> str_contains ''sand'' (str_lower s) \<and> \<not> str_contains ''clay'' (str_lower s)
           \<and> \<not> str_contains ''loam'' (str_lower s) \<and> \<not> str_contains ''lehm'' (str_lower s)
           \<and> \<not> str_contains ''silt'' (str_lower s)))"
proof -
  have up: "map_of TEXTURE_MAPPING (str_upper s) \<noteq> Some None"
    by (simp add: TEXTURE_MAPPING_bound_to_None str_upper_not_Bog str_upper_not_half_bog_soil)
  show ?thesis
  proof (cases "map_of TEXTURE_MAPPING s")
    case None
    then have not_bog: "s \<noteq> ''Bog'' \<and> s \<noteq> ''half-bog soil''"
      using TEXTURE_MAPPING_bound_to_None [of s] by auto
    show ?thesis
    proof (cases "map_of TEXTURE_MAPPING (str_upper s)")
      case None
      with \<open>map_of TEXTURE_MAPPING s = None\<close> not_bog show ?thesis
        by (simp add: map_soil_texture_def Let_def)
    next
      case (Some v)
      with up have "v \<noteq> None" by auto
      with Some \<open>map_of TEXTURE_MAPPING s = None\<close> not_bog show ?thesis
        by (simp add: map_soil_texture_def)
    qed
  next
    case (Some v)
    then show ?thesis
      using TEXTURE_MAPPING_bound_to_None [of s]
      by (auto simp: map_soil_texture_def)
  qed
qed

theorem map_soil_texture_None_iff_witness:
  "map_soil_texture (Some ''xyz'') = None
   \<and> map_of TEXTURE_MAPPING ''xyz'' = None \<and> map_of TEXTURE_MAPPING (str_upper ''xyz'') = None
   \<and> \<not> str_contains ''sand'' (str_lower ''xyz'')
   \<and> map_soil_texture (Some ''Bog'') = None
   \<and> map_soil_texture (Some ''Heavy Clay'') \<noteq> None"
  using map_soil_texture_None_iff [of "''xyz''"] map_soil_texture_None_iff [of "''Bog''"]
    map_soil_texture_None_iff [of "''Heavy Clay''"]
  by (simp add: TEXTURE_MAPPING_def str_defs)

text \<open>A non-empty string without a keyword resolves to \<open>None\<close>.\<close>

theorem map_soil_texture_unrecognized_counterexample:
  "''xyz'' \<noteq> [] \<and> map_soil_texture (Some ''xyz'') = None"
  by (simp add: map_soil_texture_def TEXTURE_MAPPING_def str_defs)

subsection \<open>The bicarbonate factor\<close>

lemma get_bicarbonate_factor_nonneg:
  "0 \<le> ph \<Longrightarrow>
     get_bicarbonate_factor ph = Inr (max 5 (min 500 (0.002304 * ph powr 5.792337)))"
  by (simp add: get_bicarbonate_factor_def Let_def)

lemma get_bicarbonate_factor_negative:
  "ph < 0 \<Longrightarrow> get_bicarbonate_factor ph = Inl TypeError"
  by (simp add: get_bicarbonate_factor_def Let_def)

lemma clamped_power_law_continuous:
  "continuous_on {0..} (\<lambda>ph::real. max 5 (min 500 (0.002304 * ph powr 5.792337)))"
proof -
  have "continuous_on {0..} (\<lambda>ph::real. ph powr 5.792337)"
    by (rule continuous_on_powr') (auto intro: continuous_intros)
  then show ?thesis
    by (intro continuous_on_max continuous_on_min continuous_on_mult continuous_on_const)
qed

lemma bicarbonate_continuous:
  "continuous_on {0..}
     (\<lambda>ph. case get_bicarbonate_factor ph of Inr v \<Rightarrow> v | Inl e \<Rightarrow> 0)"
proof -
  have "continuous_on {0..} (\<lambda>ph. case get_bicarbonate_factor ph of Inr v \<Rightarrow> v | Inl e \<Rightarrow> 0)
        \<longleftrightarrow> continuous_on {0..} (\<lambda>ph::real. max 5 (min 500 (0.002304 * ph powr 5.792337)))"
    by (rule continuous_on_cong) (simp_all add: get_bicarbonate_factor_nonneg)
  then show ?thesis using clamped_power_law_continuous by simp
qed

lemma power_law_mono:
  fixes x y :: real
  assumes "0 \<le> x" "x \<le> y"
  shows "0.002304 * x powr 5.792337 \<le> 0.002304 * y powr 5.792337"
  using assms by (simp add: powr_mono2)

lemma power_law_strict_mono:
  fixes x y :: real
  assumes "0 \<le> x" "x < y"
  shows "0.002304 * x powr 5.792337 < 0.002304 * y powr 5.792337"
  using assms by (simp add: powr_less_mono2)

text \<open>
  Claim C9, as the code has it. For every pH from 0 upwards the bicarbonate factor is the
  power law \<open>0.002304 * pH powr 5.792337\<close> clamped to the range from 5 to 500; as a
  function of the pH it is continuous there and non-decreasing, and it is strictly
  increasing between two pH values at which the power law itself lies within the range.
\<close>

theorem bicarbonate_factor_clamped_power_law:
  "(0 \<le> ph \<longrightarrow>
      get_bicarbonate_factor ph = Inr (max 5 (min 500 (0.002304 * ph powr 5.792337))))
   \<and> continuous_on {0..}
        (\<lambda>ph. case get_bicarbonate_factor ph of Inr v \<Rightarrow> v | Inl e \<Rightarrow> 0)
   \<and> (0 \<le> x \<and> x \<le> y \<longrightarrow>
        (\<exists>u v. get_bicarbonate_factor x = Inr u \<and> get_bicarbonate_factor y = Inr v \<and> u \<le> v))
   \<and> (0 \<le> x \<and> x < y \<and> 5 \<le> 0.002304 * x powr 5.792337
        \<and> 0.002304 * y powr 5.792337 \<le> 500 \<longrightarrow>
        (\<exists>u v. get_bicarbonate_factor x = Inr u \<and> get_bicarbonate_factor y = Inr v \<and> u < v))"
proof (intro conjI impI)
  assume "0 \<le> ph"
  then show "get_bicarbonate_factor ph = Inr (max 5 (min 500 (0.002304 * ph powr 5.792337)))"
    by (rule get_bicarbonate_factor_nonneg)
next
  show "continuous_on {0..}
        (\<lambda>ph. case get_bicarbonate_factor ph of Inr v \<Rightarrow> v | Inl e \<Rightarrow> 0)"
    by (rule bicarbonate_continuous)
next
  assume a: "0 \<le> x \<and> x \<le> y"
  then have "0.002304 * x powr 5.792337 \<le> 0.002304 * y powr 5.792337"
    using power_law_mono by blast
  then have "max 5 (min 500 (0.002304 * x powr 5.792337))
             \<le> max 5 (min 500 (0.002304 * y powr 5.792337))"
    by (simp add: max_def min_def)
  with a show "\<exists>u v. get_bicarbonate_factor x = Inr u \<and> get_bicarbonate_factor y = Inr v \<and> u \<le> v"
    using get_bicarbonate_factor_nonneg [of x] get_bicarbonate_factor_nonneg [of y] by simp
next
  assume a: "0 \<le> x \<and> x < y \<and> 5 \<le> 0.002304 * x powr 5.792337
        \<and> 0.002304 * y powr 5.792337 \<le> 500"
  then have lt: "0.002304 * x powr 5.792337 < 0.002304 * y powr 5.792337"
    using power_law_strict_mono by blast
  with a have "max 5 (min 500 (0.002304 * x powr 5.792337))
             < max 5 (min 500 (0.002304 * y powr 5.792337))"
    by (simp add: max_def min_def)
  with a show "\<exists>u v. get_bicarbonate_factor x = Inr u \<and> get_bicarbonate_factor y = Inr v \<and> u < v"
    using get_bicarbonate_factor_nonneg [of x] get_bicarbonate_factor_nonneg [of y] by simp
qed

lemma six_above_floor: "5 \<le> 0.002304 * (6::real) powr 5.792337"
proof -
  have "(6::real) powr 5 \<le> 6 powr 5.792337" by (rule powr_mono) simp_all
  moreover have "(6::real) powr 5 = 7776" by simp
  ultimately show ?thesis by simp
qed

lemma seven_below_ceiling: "0.002304 * (7::real) powr 5.792337 \<le> 500"
proof -
  have "(7::real) powr 5.792337 \<le> 7 powr 6" by (rule powr_mono) simp_all
  moreover have "(7::real) powr 6 = 117649" by simp
  ultimately show ?thesis by simp
qed

lemma three_below_floor: "0.002304 * (3::real) powr 5.792337 \<le> 5"
proof -
  have "(3::real) powr 5.792337 \<le> 3 powr 6" by (rule powr_mono) simp_all
  moreover have "(3::real) powr 6 = 729" by simp
  ultimately show ?thesis by simp
qed

lemma two_below_floor: "0.002304 * (2::real) powr 5.792337 \<le> 5"
proof -
  have "(2::real) powr 5.792337 \<le> 2 powr 6" by (rule powr_mono) simp_all
  moreover have "(2::real) powr 6 = 64" by simp
  ultimately show ?thesis by simp
qed

theorem bicarbonate_factor_clamped_power_law_witness:
  "(0::real) \<le> 6 \<and> (6::real) < 7 \<and> 5 \<le> 0.002304 * (6::real) powr 5.792337
   \<and> 0.002304 * (7::real) powr 5.792337 \<le> 500
   \<and> get_bicarbonate_factor 6 = Inr (max 5 (min 500 (0.002304 * 6 powr 5.792337)))
   \<and> (\<exists>u v. get_bicarbonate_factor 6 = Inr u \<and> get_bicarbonate_factor 7 = Inr v \<and> u < v)"
proof -
  have h: "(0::real) \<le> 6 \<and> (6::real) < 7 \<and> 5 \<le> 0.002304 * (6::real) powr 5.792337
             \<and> 0.002304 * (7::real) powr 5.792337 \<le> 500"
    using six_above_floor seven_below_ceiling by simp
  have "0 \<le> (6::real)" by simp
  with h bicarbonate_factor_clamped_power_law [of 6 6 7] show ?thesis by blast
qed

text \<open>
  On the clamped stretches the factor is constant: pH 2 and pH 3 both give 5. (A negative
  pH raises \<open>TypeError\<close>, see \<open>get_bicarbonate_factor_negative\<close>.)
\<close>

theorem bicarbonate_factor_flat_counterexample:
  "(2::real) < 3 \<and> get_bicarbonate_factor 2 = Inr 5 \<and> get_bicarbonate_factor 3 = Inr 5"
  using two_below_floor three_below_floor
  by (simp add: get_bicarbonate_factor_nonneg max_def min_def)

end
